theory Spec2Isabelle
  imports Main
begin

section \<open>Python values\<close>

text \<open>
  The handlers of \<^verbatim>\<open>centrifuge/handlers.py\<close> pass dynamically typed values around:
  decoded JSON, error objects, projects. They only test such a value for truthiness, call
  \<^verbatim>\<open>.get\<close> on it, or look it up in a dictionary. A finite float is kept as mantissa and
  exponent (\<open>m * 2 ^ e\<close>); it is falsy exactly when the mantissa is zero. A dictionary with
  string keys is an association list.
\<close>

datatype pyval =
    PNone
  | PBool bool
  | PInt int
  | PFloat int int
  | PStr string
  | PList "pyval list"
  | PDict "(string \<times> pyval) list"

datatype exn = AttributeError | TypeError | KeyError

fun truthy :: "pyval \<Rightarrow> bool" where
  "truthy PNone = False"
| "truthy (PBool b) = b"
| "truthy (PInt i) = (i \<noteq> 0)"
| "truthy (PFloat m e) = (m \<noteq> 0)"
| "truthy (PStr s) = (s \<noteq> [])"
| "truthy (PList xs) = (xs \<noteq> [])"
| "truthy (PDict kvs) = (kvs \<noteq> [])"

text \<open>
  \<^verbatim>\<open>d.get(k)\<close>: only a dictionary has the method; on any other value the attribute
  lookup raises \<^verbatim>\<open>AttributeError\<close>. A missing key gives \<^verbatim>\<open>None\<close>.
\<close>

definition dict_get :: "(string \<times> pyval) list \<Rightarrow> string \<Rightarrow> pyval" where
  "dict_get kvs k = (case map_of kvs k of None \<Rightarrow> PNone | Some v \<Rightarrow> v)"

fun py_get :: "pyval \<Rightarrow> string \<Rightarrow> exn + pyval" where
  "py_get (PDict kvs) k = Inr (dict_get kvs k)"
| "py_get _ k = Inl AttributeError"

text \<open>
  \<^verbatim>\<open>x in d\<close> for a dictionary \<open>d\<close> with string keys: a list or a dictionary is unhashable
  and raises \<^verbatim>\<open>TypeError\<close>; any other value that is not a string is simply not a key.
\<close>

fun py_in :: "pyval \<Rightarrow> (string \<rightharpoonup> 's) \<Rightarrow> exn + bool" where
  "py_in (PStr s) d = Inr (d s \<noteq> None)"
| "py_in (PList xs) d = Inl TypeError"
| "py_in (PDict kvs) d = Inl TypeError"
| "py_in _ d = Inr False"

text \<open>
  \<^verbatim>\<open>d[x]\<close> for the same kind of dictionary: a missing key raises \<^verbatim>\<open>KeyError\<close>.
\<close>

fun py_index :: "(string \<rightharpoonup> 's) \<Rightarrow> pyval \<Rightarrow> exn + 's" where
  "py_index d (PStr s) = (case d s of None \<Rightarrow> Inl KeyError | Some v \<Rightarrow> Inr v)"
| "py_index d (PList xs) = Inl TypeError"
| "py_index d (PDict kvs) = Inl TypeError"
| "py_index d _ = Inl KeyError"

section \<open>The API handler\<close>

record request =
  body :: string
  headers :: "(string \<times> string) list"

text \<open>
  Modelled from the spec: the class \<^verbatim>\<open>Response\<close> of \<^verbatim>\<open>centrifuge/core.py\<close> is not
  part of the sources at hand. The spec gives it the four fields \<open>uid\<close>, \<open>method\<close>,
  \<open>body\<close> and \<open>error\<close>, each absent (\<^verbatim>\<open>None\<close>) until it is assigned. The fields
  \<open>method\<close> and \<open>body\<close> are \<open>rmethod\<close> and \<open>rbody\<close> here.
\<close>

record response =
  uid :: pyval
  rmethod :: pyval
  rbody :: pyval
  error :: pyval

definition Response :: response where
  "Response = \<lparr>uid = PNone, rmethod = PNone, rbody = PNone, error = PNone\<rparr>"

text \<open>
  The collaborators the handler calls and that live outside \<^verbatim>\<open>handlers.py\<close>:
  the helpers of the \<^verbatim>\<open>auth\<close> module, the project registry and the signature check of
  \<^verbatim>\<open>application.structure\<close>, the JSON schema validator with the two schema tables, and
  the command processor. Each is a parameter. \<open>validate\<close> returns \<open>None\<close> when the value
  conforms and \<open>Some msg\<close> when it raises \<^verbatim>\<open>ValidationError\<close>, \<open>msg\<close> being
  \<^verbatim>\<open>str(e)\<close>.
\<close>

record 's deps =
  extract_auth_info :: "request \<Rightarrow> pyval \<times> pyval"
  get_project_by_id :: "string \<Rightarrow> pyval \<times> pyval"
  check_auth :: "pyval \<Rightarrow> pyval \<Rightarrow> string \<Rightarrow> pyval \<times> pyval"
  decode_data :: "string \<Rightarrow> pyval"
  validate :: "pyval \<Rightarrow> 's \<Rightarrow> string option"
  req_schema :: 's
  admin_params_schema :: "string \<rightharpoonup> 's"
  process_call :: "pyval \<Rightarrow> pyval \<Rightarrow> pyval \<Rightarrow> pyval \<times> pyval"

text \<open>The calls made to the collaborators, in the order they happen.\<close>

datatype call =
    ExtractAuthInfo
  | GetProjectById string
  | CheckAuth pyval pyval string
  | DecodeData string
  | NewResponse
  | ValidateRequest pyval
  | ValidateParams pyval pyval
  | ProcessCall pyval pyval pyval

text \<open>
  The log message of an \<^verbatim>\<open>HTTPError\<close> is a literal, an object handed over as it is,
  or \<^verbatim>\<open>str(error)\<close> of an object.
\<close>

datatype logmsg = Lit string | Obj pyval | StrOf pyval

datatype outcome =
    HTTPError nat logmsg
  | Raised exn
  | JsonResponse response

definition after :: "call \<Rightarrow> call list \<times> outcome \<Rightarrow> call list \<times> outcome" where
  "after c r = (c # fst r, snd r)"

text \<open>
  Lines 93--112 of \<^verbatim>\<open>ApiHandler.post\<close>: the \<^verbatim>\<open>else\<close> branch taken when the decoded
  data conforms to the request schema.
\<close>

definition post_dispatch :: "'s deps \<Rightarrow> pyval \<Rightarrow> pyval \<Rightarrow> call list \<times> outcome" where
  "post_dispatch d project data =
    (case py_get data ''uid'' of
       Inl e \<Rightarrow> ([], Raised e)
     | Inr req_id \<Rightarrow>
        (case py_get data ''method'' of
           Inl e \<Rightarrow> ([], Raised e)
         | Inr meth \<Rightarrow>
            (case py_get data ''params'' of
               Inl e \<Rightarrow> ([], Raised e)
             | Inr params \<Rightarrow>
                (let response = Response\<lparr>uid := req_id, rmethod := meth\<rparr> in
                 case py_in meth (admin_params_schema d) of
                   Inl e \<Rightarrow> ([], Raised e)
                 | Inr False \<Rightarrow>
                     ([], JsonResponse (response\<lparr>error := PStr ''method not found''\<rparr>))
                 | Inr True \<Rightarrow>
                    (case py_index (admin_params_schema d) meth of
                       Inl e \<Rightarrow> ([], Raised e)
                     | Inr schema \<Rightarrow>
                        after (ValidateParams params meth)
                         (case validate d params schema of
                            Some msg \<Rightarrow> ([], JsonResponse (response\<lparr>error := PStr msg\<rparr>))
                          | None \<Rightarrow>
                              after (ProcessCall project meth params)
                               (case process_call d project meth params of
                                  (result, err) \<Rightarrow>
                                    ([], JsonResponse
                                       (response\<lparr>rbody := result, error := err\<rparr>)))))))))"

text \<open>\<^verbatim>\<open>ApiHandler.post\<close>, lines 55--114.\<close>

definition post :: "'s deps \<Rightarrow> request \<Rightarrow> string \<Rightarrow> call list \<times> outcome" where
  "post d req project_id =
    (if body req = [] then ([], HTTPError 400 (Lit ''empty request''))
     else
      after ExtractAuthInfo
       (case extract_auth_info d req of (auth_info, err) \<Rightarrow>
        if truthy err then ([], HTTPError 401 (Obj err))
        else
         (case py_get auth_info ''sign'' of
            Inl e \<Rightarrow> ([], Raised e)
          | Inr sign \<Rightarrow>
             if \<not> truthy sign then ([], HTTPError 401 (Lit ''unauthorized''))
             else
              after (GetProjectById project_id)
               (case get_project_by_id d project_id of (project, err) \<Rightarrow>
                if truthy err then ([], HTTPError 500 (StrOf err))
                else if \<not> truthy project then ([], HTTPError 404 (Lit ''project not found''))
                else
                 (let encoded_data = body req in
                  if encoded_data = [] then ([], HTTPError 400 (Lit ''no request body''))
                  else
                   after (CheckAuth project sign encoded_data)
                    (case check_auth d project sign encoded_data of (result, err) \<Rightarrow>
                     if truthy err then ([], HTTPError 500 (StrOf err))
                     else if \<not> truthy result then ([], HTTPError 401 (Lit ''unauthorized''))
                     else
                      after (DecodeData encoded_data)
                       (let data = decode_data d encoded_data in
                        if \<not> truthy data then ([], HTTPError 400 (Lit ''malformed data''))
                        else
                         after NewResponse
                          (after (ValidateRequest data)
                            (case validate d data (req_schema d) of
                               Some msg \<Rightarrow> ([], JsonResponse (Response\<lparr>error := PStr msg\<rparr>))
                             | None \<Rightarrow> post_dispatch d project data)))))))))"

text \<open>
  The request passes the six gates of lines 55--84: the body is not empty, the auth info
  is extracted without error and carries a signature, the project is resolved, the
  signature verifies over the raw body, and the body decodes to a truthy value.
\<close>

definition accepted ::
  "'s deps \<Rightarrow> request \<Rightarrow> string \<Rightarrow> pyval \<Rightarrow> pyval \<Rightarrow> pyval \<Rightarrow> bool" where
  "accepted d req project_id sign project data =
    (body req \<noteq> [] \<and>
     \<not> truthy (snd (extract_auth_info d req)) \<and>
     py_get (fst (extract_auth_info d req)) ''sign'' = Inr sign \<and> truthy sign \<and>
     \<not> truthy (snd (get_project_by_id d project_id)) \<and>
     project = fst (get_project_by_id d project_id) \<and> truthy project \<and>
     \<not> truthy (snd (check_auth d project sign (body req))) \<and>
     truthy (fst (check_auth d project sign (body req))) \<and>
     data = decode_data d (body req) \<and> truthy data)"

definition gate_calls :: "request \<Rightarrow> string \<Rightarrow> pyval \<Rightarrow> pyval \<Rightarrow> call list" where
  "gate_calls req project_id sign project =
    [ExtractAuthInfo, GetProjectById project_id, CheckAuth project sign (body req),
     DecodeData (body req)]"

section \<open>The SockJS connection\<close>

text \<open>
  \<^verbatim>\<open>SockjsConnection\<close> holds the transport's session (\<open>None\<close> when there is none) and,
  between \<^verbatim>\<open>on_open\<close> and \<^verbatim>\<open>on_close\<close>, the attribute \<^verbatim>\<open>client\<close>; \<open>None\<close> stands for
  the attribute not being set, so that reading it raises \<^verbatim>\<open>AttributeError\<close>. The calls the
  handlers make on the session and on the client are recorded in \<open>events\<close>, oldest
  first.

  A session object has a truth value of its own, which \<^verbatim>\<open>if self.session:\<close> tests. The
  sessions of the transport library define neither \<^verbatim>\<open>__bool__\<close> nor \<^verbatim>\<open>__len__\<close>, so for
  them \<open>truth_value\<close> is \<open>True\<close>; \<open>None\<close>, the absent session, is falsy.
\<close>

record sockjs_session =
  transport_name :: string
  truth_value :: bool

text \<open>
  Modelled from the spec: the class \<^verbatim>\<open>Client\<close> of \<^verbatim>\<open>centrifuge/client.py\<close> is not part of
  the sources at hand. It is the per-connection agent, constructed from the connection and
  the connection info; \<^verbatim>\<open>message_received\<close> hands it a raw message and \<^verbatim>\<open>close\<close> makes it
  release what it holds.
\<close>

record client_obj =
  client_info :: string

datatype event =
    NewClient string
  | StartHeartbeat
  | SessionClose
  | MessageReceived string
  | ClientClose

record connection =
  session :: "sockjs_session option"
  client :: "client_obj option"
  events :: "event list"

definition emit :: "event \<Rightarrow> connection \<Rightarrow> connection" where
  "emit e c = c\<lparr>events := events c @ [e]\<rparr>"

definition session_truthy :: "sockjs_session option \<Rightarrow> bool" where
  "session_truthy s = (case s of None \<Rightarrow> False | Some x \<Rightarrow> truth_value x)"

text \<open>
  \<^verbatim>\<open>self.close()\<close> is not defined in \<^verbatim>\<open>handlers.py\<close>: it is the method inherited from
  \<^verbatim>\<open>SockJSConnection\<close> of the transport library, whose body is
  \<^verbatim>\<open>self.session.close()\<close>. With a session object it closes that session; on the absent
  session the attribute lookup on \<^verbatim>\<open>None\<close> raises \<^verbatim>\<open>AttributeError\<close> and nothing is
  closed.
\<close>

definition close :: "connection \<Rightarrow> connection \<times> exn option" where
  "close c =
    (case session c of
       None \<Rightarrow> (c, Some AttributeError)
     | Some s \<Rightarrow> (emit SessionClose c, None))"

definition on_open :: "connection \<Rightarrow> string \<Rightarrow> connection \<times> exn option" where
  "on_open c info =
    (let c1 = emit (NewClient info) (c\<lparr>client := Some \<lparr>client_info = info\<rparr>\<rparr>) in
     if session_truthy (session c1) then
       (case session c1 of
          None \<Rightarrow> (c1, Some AttributeError)
        | Some s \<Rightarrow>
            if transport_name s \<noteq> ''rawwebsocket'' then (emit StartHeartbeat c1, None)
            else (c1, None))
     else close c1)"

definition on_message :: "connection \<Rightarrow> string \<Rightarrow> connection \<times> exn option" where
  "on_message c message =
    (case client c of
       None \<Rightarrow> (c, Some AttributeError)
     | Some cl \<Rightarrow> (emit (MessageReceived message) c, None))"

definition on_close :: "connection \<Rightarrow> connection \<times> exn option" where
  "on_close c =
    (case client c of
       None \<Rightarrow> (c, Some AttributeError)
     | Some cl \<Rightarrow> ((emit ClientClose c)\<lparr>client := None\<rparr>, None))"

section \<open>Sample collaborators and inputs\<close>

text \<open>
  A registry with the single project \<open>p1\<close> and the single method \<open>publish\<close>; auth info
  read from the request's headers; a verifier that accepts the signature \<open>good\<close>; a
  decoder that knows three payloads; a validator for which a request is a dictionary
  whose \<open>method\<close> is a string and parameters are a dictionary; a processor that answers
  \<open>True\<close>. Schemas are named by strings.
\<close>

definition envelope :: pyval where
  "envelope = PDict [(''uid'', PStr ''7''), (''method'', PStr ''publish''),
                     (''params'', PDict [(''channel'', PStr ''news'')])]"

definition unknown_envelope :: pyval where
  "unknown_envelope = PDict [(''uid'', PStr ''8''), (''method'', PStr ''shout''),
                             (''params'', PDict [])]"

definition bad_envelope :: pyval where
  "bad_envelope = PDict [(''uid'', PStr ''9''), (''method'', PInt 5), (''params'', PDict [])]"

definition sample_project :: pyval where
  "sample_project = PDict [(''_id'', PStr ''p1'')]"

definition sample_decode :: "string \<Rightarrow> pyval" where
  "sample_decode b =
    (if b = ''E'' then envelope
     else if b = ''U'' then unknown_envelope
     else if b = ''B'' then bad_envelope
     else PNone)"

definition sample_validate :: "pyval \<Rightarrow> string \<Rightarrow> string option" where
  "sample_validate v s =
    (case v of
       PDict kvs \<Rightarrow>
         if s = ''request'' then
           (case map_of kvs ''method'' of
              Some (PStr m) \<Rightarrow> None
            | _ \<Rightarrow> Some ''method is not of type string'')
         else None
     | _ \<Rightarrow> Some ''not of type object'')"

definition sample_extract :: "request \<Rightarrow> pyval \<times> pyval" where
  "sample_extract r =
    (case map_of (headers r) ''sign'' of
       None \<Rightarrow> (PDict [], PNone)
     | Some s \<Rightarrow> (PDict [(''sign'', PStr s)], PNone))"

definition sample_registry :: "string \<Rightarrow> pyval \<times> pyval" where
  "sample_registry i = (if i = ''p1'' then (sample_project, PNone) else (PNone, PNone))"

definition sample_verifier :: "pyval \<Rightarrow> pyval \<Rightarrow> string \<Rightarrow> pyval \<times> pyval" where
  "sample_verifier p s b = (PBool (s = PStr ''good''), PNone)"

definition sample_processor :: "pyval \<Rightarrow> pyval \<Rightarrow> pyval \<Rightarrow> pyval \<times> pyval" where
  "sample_processor p m ps = (PBool True, PNone)"

definition silent_processor :: "pyval \<Rightarrow> pyval \<Rightarrow> pyval \<Rightarrow> pyval \<times> pyval" where
  "silent_processor p m ps = (PNone, PNone)"

definition sample_deps :: "string deps" where
  "sample_deps =
    \<lparr>extract_auth_info = sample_extract,
     get_project_by_id = sample_registry,
     check_auth = sample_verifier,
     decode_data = sample_decode,
     validate = sample_validate,
     req_schema = ''request'',
     admin_params_schema = [''publish'' \<mapsto> ''publish_params''],
     process_call = sample_processor\<rparr>"

text \<open>The same with a processor that returns neither a result nor an error.\<close>

definition silent_deps :: "string deps" where
  "silent_deps = sample_deps\<lparr>process_call := silent_processor\<rparr>"

text \<open>The same with auth extraction, the registry or the verifier failing.\<close>

definition failing_extract :: "request \<Rightarrow> pyval \<times> pyval" where
  "failing_extract r = (PNone, PStr ''no auth header found'')"

definition failing_registry :: "string \<Rightarrow> pyval \<times> pyval" where
  "failing_registry i = (PNone, PStr ''registry down'')"

definition failing_verifier :: "pyval \<Rightarrow> pyval \<Rightarrow> string \<Rightarrow> pyval \<times> pyval" where
  "failing_verifier p s b = (PNone, PStr ''verifier down'')"

definition no_auth_deps :: "string deps" where
  "no_auth_deps = sample_deps\<lparr>extract_auth_info := failing_extract\<rparr>"

definition no_registry_deps :: "string deps" where
  "no_registry_deps = sample_deps\<lparr>get_project_by_id := failing_registry\<rparr>"

definition no_verifier_deps :: "string deps" where
  "no_verifier_deps = sample_deps\<lparr>check_auth := failing_verifier\<rparr>"

definition sample_request :: "string \<Rightarrow> request" where
  "sample_request b = \<lparr>body = b, headers = [(''sign'', ''good'')]\<rparr>"

definition forged_request :: "string \<Rightarrow> request" where
  "forged_request b = \<lparr>body = b, headers = [(''sign'', ''bad'')]\<rparr>"

definition unsigned_request :: "string \<Rightarrow> request" where
  "unsigned_request b = \<lparr>body = b, headers = []\<rparr>"

definition fresh_connection :: "sockjs_session option \<Rightarrow> connection" where
  "fresh_connection s = \<lparr>session = s, client = None, events = []\<rparr>"

lemmas sample_defs =
  sample_deps_def silent_deps_def no_auth_deps_def no_registry_deps_def no_verifier_deps_def
  sample_extract_def sample_registry_def sample_verifier_def sample_decode_def
  sample_validate_def sample_processor_def silent_processor_def
  failing_extract_def failing_registry_def failing_verifier_def
  sample_request_def forged_request_def unsigned_request_def
  envelope_def unknown_envelope_def bad_envelope_def sample_project_def

section \<open>The command pipeline\<close>

subsection \<open>How a request travels through the handler\<close>

lemma post_accepted:
  assumes "accepted d req pid sign project data"
  shows "post d req pid =
    (gate_calls req pid sign project @ [NewResponse, ValidateRequest data] @
       fst (case validate d data (req_schema d) of
              Some msg \<Rightarrow> ([], JsonResponse (Response\<lparr>error := PStr msg\<rparr>))
            | None \<Rightarrow> post_dispatch d project data),
     snd (case validate d data (req_schema d) of
              Some msg \<Rightarrow> ([], JsonResponse (Response\<lparr>error := PStr msg\<rparr>))
            | None \<Rightarrow> post_dispatch d project data))"
  using assms
  by (clarsimp simp add: accepted_def post_def gate_calls_def after_def Let_def case_prod_beta)


lemma post_dispatch_unknown:
  assumes "map_of kvs ''method'' = Some (PStr m)" and "admin_params_schema d m = None"
  shows "post_dispatch d project (PDict kvs) =
    ([], JsonResponse \<lparr>uid = dict_get kvs ''uid'', rmethod = PStr m, rbody = PNone,
                        error = PStr ''method not found''\<rparr>)"
  using assms by (simp add: post_dispatch_def dict_get_def Response_def)

lemma post_dispatch_known:
  assumes "map_of kvs ''method'' = Some (PStr m)" and "admin_params_schema d m = Some schema"
  shows "post_dispatch d project (PDict kvs) =
    (ValidateParams (dict_get kvs ''params'') (PStr m) #
       fst (case validate d (dict_get kvs ''params'') schema of
          Some msg \<Rightarrow> ([], JsonResponse \<lparr>uid = dict_get kvs ''uid'', rmethod = PStr m,
                          rbody = PNone, error = PStr msg\<rparr>)
        | None \<Rightarrow> ([ProcessCall project (PStr m) (dict_get kvs ''params'')],
             JsonResponse \<lparr>uid = dict_get kvs ''uid'', rmethod = PStr m,
               rbody = fst (process_call d project (PStr m) (dict_get kvs ''params'')),
               error = snd (process_call d project (PStr m) (dict_get kvs ''params''))\<rparr>)),
     snd (case validate d (dict_get kvs ''params'') schema of
          Some msg \<Rightarrow> ([], JsonResponse \<lparr>uid = dict_get kvs ''uid'', rmethod = PStr m,
                          rbody = PNone, error = PStr msg\<rparr>)
        | None \<Rightarrow> ([ProcessCall project (PStr m) (dict_get kvs ''params'')],
             JsonResponse \<lparr>uid = dict_get kvs ''uid'', rmethod = PStr m,
               rbody = fst (process_call d project (PStr m) (dict_get kvs ''params'')),
               error = snd (process_call d project (PStr m) (dict_get kvs ''params''))\<rparr>)))"
proof -
  have "dict_get kvs ''method'' = PStr m"
    using assms(1) by (simp add: dict_get_def)
  then show ?thesis
    using assms(2)
    by (simp add: post_dispatch_def Response_def after_def case_prod_beta split: option.splits)
qed


lemma post_dispatch_no_http_error:
  "snd (post_dispatch d project data) \<noteq> HTTPError code msg"
  by (auto simp add: post_dispatch_def after_def Let_def
      split: sum.splits bool.splits option.splits prod.splits)

lemma http_error_before_response:
  "snd (post d req pid) = HTTPError code msg \<Longrightarrow> NewResponse \<notin> set (fst (post d req pid))"
  using post_dispatch_no_http_error [of d _ _ code msg]
  by (auto simp add: post_def after_def Let_def
      split: if_splits sum.splits option.splits prod.splits)

subsection \<open>The sample requests\<close>

lemma accepted_sample:
  "b = ''E'' \<or> b = ''U'' \<or> b = ''B'' \<Longrightarrow>
   accepted sample_deps (sample_request b) ''p1'' (PStr ''good'') sample_project
     (sample_decode b)"
  by (auto simp add: accepted_def sample_defs dict_get_def)


subsection \<open>Rejections before a response exists\<close>

text \<open>
  C4. A request with a non-empty body whose auth info has no \<open>sign\<close> entry ends as
  unauthorized (401), whatever the body holds, and the only collaborator called is the
  auth extraction: the project registry is never asked.
\<close>

theorem missing_sign_unauthorized:
  assumes "body req \<noteq> []"
    and "extract_auth_info d req = (PDict auth_info, err)"
    and "map_of auth_info ''sign'' = None"
  shows "post d req pid =
    ([ExtractAuthInfo],
     HTTPError 401 (if truthy err then Obj err else Lit ''unauthorized''))"
  using assms by (simp add: post_def after_def dict_get_def)

theorem missing_sign_unauthorized_witness:
  "body (unsigned_request ''E'') \<noteq> [] \<and>
   extract_auth_info sample_deps (unsigned_request ''E'') = (PDict [], PNone) \<and>
   map_of ([] :: (string \<times> pyval) list) ''sign'' = None \<and>
   post sample_deps (unsigned_request ''E'') ''p1'' =
     ([ExtractAuthInfo], HTTPError 401 (Lit ''unauthorized''))"
proof -
  have b: "body (unsigned_request ''E'') \<noteq> []"
    by (simp add: sample_defs)
  have e: "extract_auth_info sample_deps (unsigned_request ''E'') = (PDict [], PNone)"
    by (simp add: sample_defs)
  have m: "map_of ([] :: (string \<times> pyval) list) ''sign'' = None"
    by simp
  show ?thesis
    using b e m missing_sign_unauthorized [OF b e m, of "''p1''"] by simp
qed

text \<open>
  C5. Once the project is resolved, the signature is checked against the raw body of the
  request with that project, before anything is decoded: the first three calls are the
  auth extraction, the registry lookup and the check over \<open>body req\<close>. When the verifier
  reports an error the request ends with 500, when it does not accept the signature with
  401, and in both cases no further call is made.
\<close>

theorem verification_over_raw_body:
  assumes "body req \<noteq> []"
    and "extract_auth_info d req = (auth_info, e1)" and "\<not> truthy e1"
    and "py_get auth_info ''sign'' = Inr sign" and "truthy sign"
    and "get_project_by_id d pid = (project, e2)" and "\<not> truthy e2" and "truthy project"
    and "check_auth d project sign (body req) = (result, e3)"
  shows "take 3 (fst (post d req pid)) =
           [ExtractAuthInfo, GetProjectById pid, CheckAuth project sign (body req)] \<and>
         (truthy e3 \<or> \<not> truthy result \<longrightarrow>
            post d req pid =
              ([ExtractAuthInfo, GetProjectById pid, CheckAuth project sign (body req)],
               if truthy e3 then HTTPError 500 (StrOf e3)
               else HTTPError 401 (Lit ''unauthorized'')))"
  using assms by (simp add: post_def after_def Let_def)

theorem verification_over_raw_body_witness:
  "take 3 (fst (post sample_deps (forged_request ''E'') ''p1'')) =
     [ExtractAuthInfo, GetProjectById ''p1'', CheckAuth sample_project (PStr ''bad'') ''E''] \<and>
   post sample_deps (forged_request ''E'') ''p1'' =
     ([ExtractAuthInfo, GetProjectById ''p1'', CheckAuth sample_project (PStr ''bad'') ''E''],
      HTTPError 401 (Lit ''unauthorized''))"
proof -
  have h1: "body (forged_request ''E'') \<noteq> []"
    by (simp add: sample_defs)
  have h2: "extract_auth_info sample_deps (forged_request ''E'') =
              (PDict [(''sign'', PStr ''bad'')], PNone)"
    by (simp add: sample_defs)
  have h3: "\<not> truthy PNone"
    by simp
  have h4: "py_get (PDict [(''sign'', PStr ''bad'')]) ''sign'' = Inr (PStr ''bad'')"
    by (simp add: dict_get_def)
  have h5: "truthy (PStr ''bad'')"
    by simp
  have h6: "get_project_by_id sample_deps ''p1'' = (sample_project, PNone)"
    by (simp add: sample_defs)
  have h7: "truthy sample_project"
    by (simp add: sample_defs)
  have h8: "check_auth sample_deps sample_project (PStr ''bad'') (body (forged_request ''E'')) =
              (PBool False, PNone)"
    by (simp add: sample_defs)
  show ?thesis
    using verification_over_raw_body [OF h1 h2 h3 h4 h5 h6 h3 h7 h8]
    by (simp add: forged_request_def)
qed

text \<open>
  C6. Whenever the handler ends with an \<^verbatim>\<open>HTTPError\<close>, no \<^verbatim>\<open>Response\<close> has been
  constructed, and each rejection of lines 55--84 ends the exchange with the status code
  of its kind: an empty body gives 400; an error from the auth
  extraction, a missing or empty signature and a signature that does not verify give 401;
  a registry error gives 500 and an unknown project 404; a verifier error gives 500; a body
  that does not decode gives 400.
\<close>

theorem protocol_rejections:
  assumes "extract_auth_info d req = (auth_info, e1)"
    and "get_project_by_id d pid = (project, e2)"
    and "check_auth d project sign (body req) = (result, e3)"
  shows
   "(\<forall>code msg. snd (post d req pid) = HTTPError code msg \<longrightarrow>
        NewResponse \<notin> set (fst (post d req pid))) \<and>
    (body req = [] \<longrightarrow> post d req pid = ([], HTTPError 400 (Lit ''empty request''))) \<and>
    (body req \<noteq> [] \<and> truthy e1 \<longrightarrow>
       post d req pid = ([ExtractAuthInfo], HTTPError 401 (Obj e1))) \<and>
    (body req \<noteq> [] \<and> \<not> truthy e1 \<and> py_get auth_info ''sign'' = Inr sign \<longrightarrow>
       (\<not> truthy sign \<longrightarrow>
          post d req pid = ([ExtractAuthInfo], HTTPError 401 (Lit ''unauthorized''))) \<and>
       (truthy sign \<and> truthy e2 \<longrightarrow>
          post d req pid =
            ([ExtractAuthInfo, GetProjectById pid], HTTPError 500 (StrOf e2))) \<and>
       (truthy sign \<and> \<not> truthy e2 \<and> \<not> truthy project \<longrightarrow>
          post d req pid =
            ([ExtractAuthInfo, GetProjectById pid],
             HTTPError 404 (Lit ''project not found''))) \<and>
       (truthy sign \<and> \<not> truthy e2 \<and> truthy project \<longrightarrow>
          (truthy e3 \<longrightarrow>
             post d req pid =
               ([ExtractAuthInfo, GetProjectById pid, CheckAuth project sign (body req)],
                HTTPError 500 (StrOf e3))) \<and>
          (\<not> truthy e3 \<and> \<not> truthy result \<longrightarrow>
             post d req pid =
               ([ExtractAuthInfo, GetProjectById pid, CheckAuth project sign (body req)],
                HTTPError 401 (Lit ''unauthorized''))) \<and>
          (\<not> truthy e3 \<and> truthy result \<and> \<not> truthy (decode_data d (body req)) \<longrightarrow>
             post d req pid =
               ([ExtractAuthInfo, GetProjectById pid, CheckAuth project sign (body req),
                 DecodeData (body req)],
                HTTPError 400 (Lit ''malformed data'')))))"
proof -
  have no_response:
    "\<forall>code msg. snd (post d req pid) = HTTPError code msg \<longrightarrow>
       NewResponse \<notin> set (fst (post d req pid))"
    using http_error_before_response by blast
  have codes:
    "(body req = [] \<longrightarrow> post d req pid = ([], HTTPError 400 (Lit ''empty request''))) \<and>
     (body req \<noteq> [] \<and> truthy e1 \<longrightarrow>
        post d req pid = ([ExtractAuthInfo], HTTPError 401 (Obj e1))) \<and>
     (body req \<noteq> [] \<and> \<not> truthy e1 \<and> py_get auth_info ''sign'' = Inr sign \<longrightarrow>
        (\<not> truthy sign \<longrightarrow>
           post d req pid = ([ExtractAuthInfo], HTTPError 401 (Lit ''unauthorized''))) \<and>
        (truthy sign \<and> truthy e2 \<longrightarrow>
           post d req pid =
             ([ExtractAuthInfo, GetProjectById pid], HTTPError 500 (StrOf e2))) \<and>
        (truthy sign \<and> \<not> truthy e2 \<and> \<not> truthy project \<longrightarrow>
           post d req pid =
             ([ExtractAuthInfo, GetProjectById pid],
              HTTPError 404 (Lit ''project not found''))) \<and>
        (truthy sign \<and> \<not> truthy e2 \<and> truthy project \<longrightarrow>
           (truthy e3 \<longrightarrow>
              post d req pid =
                ([ExtractAuthInfo, GetProjectById pid, CheckAuth project sign (body req)],
                 HTTPError 500 (StrOf e3))) \<and>
           (\<not> truthy e3 \<and> \<not> truthy result \<longrightarrow>
              post d req pid =
                ([ExtractAuthInfo, GetProjectById pid, CheckAuth project sign (body req)],
                 HTTPError 401 (Lit ''unauthorized''))) \<and>
           (\<not> truthy e3 \<and> truthy result \<and> \<not> truthy (decode_data d (body req)) \<longrightarrow>
              post d req pid =
                ([ExtractAuthInfo, GetProjectById pid, CheckAuth project sign (body req),
                  DecodeData (body req)],
                 HTTPError 400 (Lit ''malformed data'')))))"
    using assms by (simp add: post_def after_def Let_def)
  show ?thesis
    by (rule conjI [OF no_response codes])
qed

theorem protocol_rejections_witness:
  "post sample_deps (sample_request []) ''p1'' = ([], HTTPError 400 (Lit ''empty request'')) \<and>
   post no_auth_deps (sample_request ''E'') ''p1'' =
     ([ExtractAuthInfo], HTTPError 401 (Obj (PStr ''no auth header found''))) \<and>
   post sample_deps (unsigned_request ''E'') ''p1'' =
     ([ExtractAuthInfo], HTTPError 401 (Lit ''unauthorized'')) \<and>
   post no_registry_deps (sample_request ''E'') ''p1'' =
     ([ExtractAuthInfo, GetProjectById ''p1''], HTTPError 500 (StrOf (PStr ''registry down''))) \<and>
   post sample_deps (sample_request ''E'') ''p2'' =
     ([ExtractAuthInfo, GetProjectById ''p2''], HTTPError 404 (Lit ''project not found'')) \<and>
   post no_verifier_deps (sample_request ''E'') ''p1'' =
     ([ExtractAuthInfo, GetProjectById ''p1'', CheckAuth sample_project (PStr ''good'') ''E''],
      HTTPError 500 (StrOf (PStr ''verifier down''))) \<and>
   post sample_deps (forged_request ''E'') ''p1'' =
     ([ExtractAuthInfo, GetProjectById ''p1'', CheckAuth sample_project (PStr ''bad'') ''E''],
      HTTPError 401 (Lit ''unauthorized'')) \<and>
   post sample_deps (sample_request ''X'') ''p1'' =
     ([ExtractAuthInfo, GetProjectById ''p1'', CheckAuth sample_project (PStr ''good'') ''X'',
       DecodeData ''X''],
      HTTPError 400 (Lit ''malformed data''))"
proof -
  have empty_body:
    "post sample_deps (sample_request []) ''p1'' = ([], HTTPError 400 (Lit ''empty request''))"
    using protocol_rejections [of sample_deps "sample_request []"
        "PDict [(''sign'', PStr ''good'')]" PNone "''p1''" sample_project PNone
        "PStr ''good''" "PBool True" PNone]
    by (simp add: sample_defs)
  have auth_error:
    "post no_auth_deps (sample_request ''E'') ''p1'' =
       ([ExtractAuthInfo], HTTPError 401 (Obj (PStr ''no auth header found'')))"
    using protocol_rejections [of no_auth_deps "sample_request ''E''"
        PNone "PStr ''no auth header found''" "''p1''" sample_project PNone
        "PStr ''good''" "PBool True" PNone]
    by (simp add: sample_defs)
  have no_sign:
    "post sample_deps (unsigned_request ''E'') ''p1'' =
       ([ExtractAuthInfo], HTTPError 401 (Lit ''unauthorized''))"
    using protocol_rejections [of sample_deps "unsigned_request ''E''"
        "PDict []" PNone "''p1''" sample_project PNone PNone "PBool False" PNone]
    by (simp add: sample_defs dict_get_def)
  have registry_error:
    "post no_registry_deps (sample_request ''E'') ''p1'' =
       ([ExtractAuthInfo, GetProjectById ''p1''],
        HTTPError 500 (StrOf (PStr ''registry down'')))"
    using protocol_rejections [of no_registry_deps "sample_request ''E''"
        "PDict [(''sign'', PStr ''good'')]" PNone "''p1''" PNone "PStr ''registry down''"
        "PStr ''good''" "PBool True" PNone]
    by (simp add: sample_defs dict_get_def)
  have unknown_project:
    "post sample_deps (sample_request ''E'') ''p2'' =
       ([ExtractAuthInfo, GetProjectById ''p2''], HTTPError 404 (Lit ''project not found''))"
    using protocol_rejections [of sample_deps "sample_request ''E''"
        "PDict [(''sign'', PStr ''good'')]" PNone "''p2''" PNone PNone
        "PStr ''good''" "PBool True" PNone]
    by (simp add: sample_defs dict_get_def)
  have verifier_error:
    "post no_verifier_deps (sample_request ''E'') ''p1'' =
       ([ExtractAuthInfo, GetProjectById ''p1'',
         CheckAuth sample_project (PStr ''good'') ''E''],
        HTTPError 500 (StrOf (PStr ''verifier down'')))"
    using protocol_rejections [of no_verifier_deps "sample_request ''E''"
        "PDict [(''sign'', PStr ''good'')]" PNone "''p1''" sample_project PNone
        "PStr ''good''" PNone "PStr ''verifier down''"]
    by (simp add: sample_defs dict_get_def)
  have forged:
    "post sample_deps (forged_request ''E'') ''p1'' =
       ([ExtractAuthInfo, GetProjectById ''p1'',
         CheckAuth sample_project (PStr ''bad'') ''E''],
        HTTPError 401 (Lit ''unauthorized''))"
    using protocol_rejections [of sample_deps "forged_request ''E''"
        "PDict [(''sign'', PStr ''bad'')]" PNone "''p1''" sample_project PNone
        "PStr ''bad''" "PBool False" PNone]
    by (simp add: sample_defs dict_get_def)
  have undecodable:
    "post sample_deps (sample_request ''X'') ''p1'' =
       ([ExtractAuthInfo, GetProjectById ''p1'',
         CheckAuth sample_project (PStr ''good'') ''X'', DecodeData ''X''],
        HTTPError 400 (Lit ''malformed data''))"
    using protocol_rejections [of sample_deps "sample_request ''X''"
        "PDict [(''sign'', PStr ''good'')]" PNone "''p1''" sample_project PNone
        "PStr ''good''" "PBool True" PNone]
    by (simp add: sample_defs dict_get_def)
  show ?thesis
    using empty_body auth_error no_sign registry_error unknown_project verifier_error
      forged undecodable
    by simp
qed

text \<open>
  C10. The second test of the body, after the project is resolved, can never reject: no
  request ends with the error of that branch, since a request that gets there has passed
  the first test of the same, unchanged body.
\<close>

theorem second_body_check_unreachable:
  "snd (post d req pid) \<noteq> HTTPError 400 (Lit ''no request body'')"
  by (auto simp add: post_def post_dispatch_def after_def Let_def
      split: if_splits prod.splits sum.splits option.splits bool.splits)

subsection \<open>Structured responses\<close>

text \<open>
  C8. When the decoded body does not conform to the request schema, the handler answers
  with a response whose \<open>error\<close> is the validation message and whose \<open>uid\<close> and
  \<open>method\<close> are not set, whatever the decoded body holds under those keys.
\<close>

theorem invalid_envelope_response:
  assumes "accepted d req pid sign project data"
    and "validate d data (req_schema d) = Some msg"
  shows "post d req pid =
    (gate_calls req pid sign project @ [NewResponse, ValidateRequest data],
     JsonResponse \<lparr>uid = PNone, rmethod = PNone, rbody = PNone, error = PStr msg\<rparr>)"
  using post_accepted [OF assms(1)] assms(2) by (simp add: Response_def)

theorem invalid_envelope_response_witness:
  "dict_get [(''uid'', PStr ''9''), (''method'', PInt 5), (''params'', PDict [])] ''uid''
     = PStr ''9'' \<and>
   post sample_deps (sample_request ''B'') ''p1'' =
    ([ExtractAuthInfo, GetProjectById ''p1'',
      CheckAuth sample_project (PStr ''good'') ''B'', DecodeData ''B'', NewResponse,
      ValidateRequest bad_envelope],
     JsonResponse \<lparr>uid = PNone, rmethod = PNone, rbody = PNone,
                     error = PStr ''method is not of type string''\<rparr>)"
proof -
  have acc: "accepted sample_deps (sample_request ''B'') ''p1'' (PStr ''good'') sample_project
               (sample_decode ''B'')"
    by (rule accepted_sample) simp
  have bad: "validate sample_deps (sample_decode ''B'') (req_schema sample_deps) =
               Some ''method is not of type string''"
    by (simp add: sample_defs)
  show ?thesis
    using invalid_envelope_response [OF acc bad]
    by (simp add: gate_calls_def sample_decode_def sample_request_def dict_get_def)
qed

text \<open>
  C7. When the decoded body is a dictionary that conforms to the request schema and its
  \<open>method\<close> is a string that is not a key of the command schema table, the handler
  answers with the error \<open>method not found\<close> and with \<open>uid\<close> and \<open>method\<close> as the
  body has them; neither the parameters are validated nor the command processor called.
\<close>

theorem unknown_method_response:
  assumes "accepted d req pid sign project (PDict kvs)"
    and "validate d (PDict kvs) (req_schema d) = None"
    and "map_of kvs ''method'' = Some (PStr m)"
    and "admin_params_schema d m = None"
  shows "post d req pid =
    (gate_calls req pid sign project @ [NewResponse, ValidateRequest (PDict kvs)],
     JsonResponse \<lparr>uid = dict_get kvs ''uid'', rmethod = PStr m, rbody = PNone,
                     error = PStr ''method not found''\<rparr>)"
  using post_accepted [OF assms(1)] assms(2) post_dispatch_unknown [OF assms(3,4)]
  by simp

theorem unknown_method_response_witness:
  "post sample_deps (sample_request ''U'') ''p1'' =
    ([ExtractAuthInfo, GetProjectById ''p1'',
      CheckAuth sample_project (PStr ''good'') ''U'', DecodeData ''U'', NewResponse,
      ValidateRequest unknown_envelope],
     JsonResponse \<lparr>uid = PStr ''8'', rmethod = PStr ''shout'', rbody = PNone,
                     error = PStr ''method not found''\<rparr>)"
proof -
  let ?kvs = "[(''uid'', PStr ''8''), (''method'', PStr ''shout''), (''params'', PDict [])]"
  have "accepted sample_deps (sample_request ''U'') ''p1'' (PStr ''good'') sample_project
          (sample_decode ''U'')"
    by (rule accepted_sample) simp
  then have acc: "accepted sample_deps (sample_request ''U'') ''p1'' (PStr ''good'')
                    sample_project (PDict ?kvs)"
    by (simp add: sample_decode_def unknown_envelope_def)
  have ok: "validate sample_deps (PDict ?kvs) (req_schema sample_deps) = None"
    by (simp add: sample_defs)
  have meth: "map_of ?kvs ''method'' = Some (PStr ''shout'')"
    by simp
  have unknown: "admin_params_schema sample_deps ''shout'' = None"
    by (simp add: sample_defs)
  show ?thesis
    using unknown_method_response [OF acc ok meth unknown]
    by (simp add: gate_calls_def sample_request_def unknown_envelope_def dict_get_def)
qed

text \<open>
  C9. When a request reaches the command processor, the response carries as \<open>uid\<close>
  exactly what the decoded body holds under \<open>uid\<close> (\<^verbatim>\<open>None\<close> when it holds nothing),
  together with the method and with the result and the error the processor returned.
\<close>

theorem dispatch_copies_uid:
  assumes "accepted d req pid sign project (PDict kvs)"
    and "validate d (PDict kvs) (req_schema d) = None"
    and "map_of kvs ''method'' = Some (PStr m)"
    and "admin_params_schema d m = Some schema"
    and "validate d (dict_get kvs ''params'') schema = None"
    and "process_call d project (PStr m) (dict_get kvs ''params'') = (result, err)"
  shows "post d req pid =
    (gate_calls req pid sign project @
       [NewResponse, ValidateRequest (PDict kvs),
        ValidateParams (dict_get kvs ''params'') (PStr m),
        ProcessCall project (PStr m) (dict_get kvs ''params'')],
     JsonResponse \<lparr>uid = dict_get kvs ''uid'', rmethod = PStr m, rbody = result,
                     error = err\<rparr>)"
  using post_accepted [OF assms(1)] assms(2,5,6) post_dispatch_known [OF assms(3,4), of project]
  by simp

theorem dispatch_copies_uid_witness:
  "post sample_deps (sample_request ''E'') ''p1'' =
    ([ExtractAuthInfo, GetProjectById ''p1'',
      CheckAuth sample_project (PStr ''good'') ''E'', DecodeData ''E'', NewResponse,
      ValidateRequest envelope,
      ValidateParams (PDict [(''channel'', PStr ''news'')]) (PStr ''publish''),
      ProcessCall sample_project (PStr ''publish'') (PDict [(''channel'', PStr ''news'')])],
     JsonResponse \<lparr>uid = PStr ''7'', rmethod = PStr ''publish'', rbody = PBool True,
                     error = PNone\<rparr>)"
proof -
  let ?kvs = "[(''uid'', PStr ''7''), (''method'', PStr ''publish''),
               (''params'', PDict [(''channel'', PStr ''news'')])]"
  have "accepted sample_deps (sample_request ''E'') ''p1'' (PStr ''good'') sample_project
          (sample_decode ''E'')"
    by (rule accepted_sample) simp
  then have acc: "accepted sample_deps (sample_request ''E'') ''p1'' (PStr ''good'')
                    sample_project (PDict ?kvs)"
    by (simp add: sample_decode_def envelope_def)
  have ok: "validate sample_deps (PDict ?kvs) (req_schema sample_deps) = None"
    by (simp add: sample_defs)
  have meth: "map_of ?kvs ''method'' = Some (PStr ''publish'')"
    by simp
  have known: "admin_params_schema sample_deps ''publish'' = Some ''publish_params''"
    by (simp add: sample_defs)
  have params_ok: "validate sample_deps (dict_get ?kvs ''params'') ''publish_params'' = None"
    by (simp add: sample_defs dict_get_def)
  have answer: "process_call sample_deps sample_project (PStr ''publish'')
                  (dict_get ?kvs ''params'') = (PBool True, PNone)"
    by (simp add: sample_defs)
  show ?thesis
    using dispatch_copies_uid [OF acc ok meth known params_ok answer]
    by (simp add: gate_calls_def sample_request_def envelope_def dict_get_def)
qed




section \<open>The connection lifecycle\<close>




text \<open>
  C2 (as amended). Once \<^verbatim>\<open>on_close\<close> has completed, a late message and a second close
  both raise \<^verbatim>\<open>AttributeError\<close>, the attribute \<^verbatim>\<open>client\<close> having been deleted: nothing is
  handed to the client and the connection is left as it was, but neither event is
  silently absorbed.
\<close>

theorem after_close_events_raise:
  "on_close c = (c', None) \<Longrightarrow>
   on_message c' message = (c', Some AttributeError) \<and>
   on_close c' = (c', Some AttributeError)"
  by (auto simp add: on_close_def on_message_def emit_def split: option.splits)

theorem after_close_events_raise_witness:
  "on_close \<lparr>session = None, client = Some \<lparr>client_info = ''info''\<rparr>, events = []\<rparr> =
     (\<lparr>session = None, client = None, events = [ClientClose]\<rparr>, None) \<and>
   on_message \<lparr>session = None, client = None, events = [ClientClose]\<rparr> ''late'' =
     (\<lparr>session = None, client = None, events = [ClientClose]\<rparr>, Some AttributeError) \<and>
   on_close \<lparr>session = None, client = None, events = [ClientClose]\<rparr> =
     (\<lparr>session = None, client = None, events = [ClientClose]\<rparr>, Some AttributeError)"
proof -
  have closed:
    "on_close \<lparr>session = None, client = Some \<lparr>client_info = ''info''\<rparr>, events = []\<rparr> =
       (\<lparr>session = None, client = None, events = [ClientClose]\<rparr>, None)"
    by (simp add: on_close_def emit_def)
  show ?thesis
    using closed after_close_events_raise [OF closed, of "''late''"] by simp
qed

text \<open>
  C2 as stated fails: after open and close, a late message faults and so does a second
  close.
\<close>

theorem late_events_fault:
  "snd (on_message (fst (on_close (fst (on_open (fresh_connection
      (Some \<lparr>transport_name = ''websocket'', truth_value = True\<rparr>)) ''info'')))) ''late'')
     = Some AttributeError \<and>
   snd (on_close (fst (on_close (fst (on_open (fresh_connection
      (Some \<lparr>transport_name = ''websocket'', truth_value = True\<rparr>)) ''info'')))))
     = Some AttributeError"
  by (simp add: on_close_def on_message_def on_open_def session_truthy_def emit_def
      fresh_connection_def)

end
